theory Spec2Isabelle
  imports Main "HOL-Library.AList"
begin

section \<open>The translation compiler of \<^verbatim>\<open>src/lib/i18n-compile.ts\<close>\<close>

text \<open>
  The compiler reads property files, merges them per locale, parses every message and
  writes generated modules. Everything it imports from outside the file (the file system,
  \<^verbatim>\<open>globby\<close>, the \<^verbatim>\<open>properties\<close> parser, the message-format
  parser, \<^verbatim>\<open>lodash.camelCase\<close>, \<^verbatim>\<open>stringify-object\<close>,
  \<^verbatim>\<open>path.join\<close>, and the repository's own \<^verbatim>\<open>../lib/i18n\<close> and
  \<^verbatim>\<open>./intl\<close>, which are not among the sources) is a field of the record
  \<open>env\<close> below, so every theorem holds for each behaviour of those parts.
\<close>

subsection \<open>JavaScript values used by the compiler\<close>

text \<open>An error value; \<^verbatim>\<open>err.code\<close> is the only field the code inspects.\<close>

datatype js_error = JsError (err_code: "string option") (err_message: string)

text \<open>
  A plain object used as a dictionary is the list of its own properties in insertion
  order. \<^verbatim>\<open>obj[k] = v\<close> replaces the value of an existing key in place and appends a
  new key at the end. (The setter of \<^verbatim>\<open>__proto__\<close> is not modelled: every key the
  compiler assigns is a result of \<^verbatim>\<open>camelCase\<close>, which yields no underscore.)
\<close>

type_synonym 'v js_object = "(string \<times> 'v) list"

definition js_set :: "'v js_object \<Rightarrow> string \<Rightarrow> 'v \<Rightarrow> 'v js_object" where
  "js_set obj k v = AList.update k v obj"

text \<open>
  Reading \<^verbatim>\<open>obj[k]\<close> from an object created by \<^verbatim>\<open>{}\<close> finds an own property,
  or else a member inherited from \<^verbatim>\<open>Object.prototype\<close>, or else
  \<^verbatim>\<open>undefined\<close>.
\<close>

datatype 'v js_prop = Own 'v | Inherited | Undefined

definition object_prototype_names :: "string list" where
  "object_prototype_names =
     [''constructor'', ''hasOwnProperty'', ''isPrototypeOf'', ''propertyIsEnumerable'',
      ''toLocaleString'', ''toString'', ''valueOf'', ''__proto__'',
      ''__defineGetter__'', ''__defineSetter__'', ''__lookupGetter__'', ''__lookupSetter__'']"

definition js_read :: "'v js_object \<Rightarrow> string \<Rightarrow> 'v js_prop" where
  "js_read obj k =
     (case map_of obj k of
        Some v \<Rightarrow> Own v
      | None \<Rightarrow> if k \<in> set object_prototype_names then Inherited else Undefined)"

text \<open>
  \<^verbatim>\<open>Object.keys\<close> and \<^verbatim>\<open>Object.assign\<close> visit the own properties with the
  array indices first, in ascending numeric order, then the other keys in insertion order.
\<close>

definition is_digit :: "char \<Rightarrow> bool" where
  "is_digit c = (48 \<le> (of_char c :: nat) \<and> (of_char c :: nat) \<le> 57)"

definition index_value :: "string \<Rightarrow> nat" where
  "index_value s = foldl (\<lambda>n c. 10 * n + ((of_char c :: nat) - 48)) 0 s"

definition is_array_index :: "string \<Rightarrow> bool" where
  "is_array_index s =
     (s \<noteq> [] \<and> list_all is_digit s \<and> (s = ''0'' \<or> hd s \<noteq> CHR ''0'')
      \<and> index_value s < 4294967295)"

definition js_entries :: "'v js_object \<Rightarrow> (string \<times> 'v) list" where
  "js_entries obj =
     sort_key (\<lambda>p. index_value (fst p)) (filter (\<lambda>p. is_array_index (fst p)) obj)
     @ filter (\<lambda>p. \<not> is_array_index (fst p)) obj"

definition js_keys :: "'v js_object \<Rightarrow> string list" where
  "js_keys obj = map fst (js_entries obj)"

definition js_assign :: "'v js_object \<Rightarrow> 'v js_object \<Rightarrow> 'v js_object" where
  "js_assign acc src = foldl (\<lambda>a p. js_set a (fst p) (snd p)) acc (js_entries src)"

text \<open>\<^verbatim>\<open>s.split(c)\<close> for a one-character separator, and \<^verbatim>\<open>xs.join(sep)\<close>.\<close>

fun js_split :: "char \<Rightarrow> string \<Rightarrow> string list" where
  "js_split c [] = [[]]"
| "js_split c (x # xs) =
     (if x = c then [] # js_split c xs
      else (case js_split c xs of
              [] \<Rightarrow> [[x]]
            | y # ys \<Rightarrow> (x # y) # ys))"

fun js_join :: "string \<Rightarrow> string list \<Rightarrow> string" where
  "js_join sep [] = []"
| "js_join sep [x] = x"
| "js_join sep (x # y # ys) = x @ sep @ js_join sep (y # ys)"

text \<open>\<^verbatim>\<open>xs[i]\<close> on an array: \<^verbatim>\<open>undefined\<close> out of range.\<close>

definition js_nth :: "'a list \<Rightarrow> nat \<Rightarrow> 'a option" where
  "js_nth xs i = (if i < length xs then Some (xs ! i) else None)"

text \<open>A string or \<^verbatim>\<open>undefined\<close> spliced into a template literal.\<close>

definition js_template :: "string option \<Rightarrow> string" where
  "js_template v = (case v of None \<Rightarrow> ''undefined'' | Some s \<Rightarrow> s)"

abbreviation (input) sq :: string where
  "sq \<equiv> [CHR 0x27]"

text \<open>\<^verbatim>\<open>uniqBy\<close> of lodash: the first element of each key is kept, in order.\<close>

fun baseUniq :: "('a \<Rightarrow> 'k) \<Rightarrow> 'k list \<Rightarrow> 'a list \<Rightarrow> 'a list" where
  "baseUniq f seen [] = []"
| "baseUniq f seen (x # xs) =
     (if f x \<in> set seen then baseUniq f seen xs
      else x # baseUniq f (seen @ [f x]) xs)"

definition uniqBy :: "'a list \<Rightarrow> ('a \<Rightarrow> 'k) \<Rightarrow> 'a list" where
  "uniqBy xs f = baseUniq f [] xs"

subsection \<open>The message syntax tree\<close>

text \<open>
  The tree the message-format parser returns, with the fields the compiler reads: the
  elements of a pattern, the \<^verbatim>\<open>type\<close>, \<^verbatim>\<open>id\<close> and \<^verbatim>\<open>format\<close> of an
  element (\<^verbatim>\<open>format\<close> may be null), the \<^verbatim>\<open>type\<close> and \<^verbatim>\<open>options\<close> of a
  format and the \<^verbatim>\<open>selector\<close> of an option.
\<close>

datatype ast = Ast (elements: "element list")
  and element = Element (etype: string) (eid: string) (eformat: "arg_format option")
  and arg_format = Format (ftype: string) (foptions: "format_option list")
  and format_option = FormatOption (selector: string) (ovalue: ast)

subsection \<open>Argument types\<close>

definition hasArguments :: "ast js_prop \<Rightarrow> bool" where
  "hasArguments p =
     (case p of
        Own a \<Rightarrow> filter (\<lambda>e. etype e = ''argumentElement'') (elements a) \<noteq> []
      | Inherited \<Rightarrow> False
      | Undefined \<Rightarrow> False)"

definition argumentType :: "element \<Rightarrow> string" where
  "argumentType e =
     (if (case eformat e of None \<Rightarrow> False | Some f \<Rightarrow> ftype f = ''pluralFormat'')
      then ''number''
      else if (case eformat e of None \<Rightarrow> False | Some f \<Rightarrow> ftype f = ''selectFormat'')
      then js_join '' | ''
             (map (\<lambda>opt. if selector opt = ''other'' then ''string''
                          else sq @ selector opt @ sq)
                  (case eformat e of None \<Rightarrow> [] | Some f \<Rightarrow> foptions f))
      else ''string'')"

definition keyTypePairs :: "ast \<Rightarrow> (string \<times> string) list" where
  "keyTypePairs a =
     uniqBy (map (\<lambda>e. (eid e, argumentType e))
               (filter (\<lambda>e. etype e = ''argumentElement'') (elements a)))
            fst"

definition getArgumentTypes :: "ast \<Rightarrow> string" where
  "getArgumentTypes a =
     (if keyTypePairs a \<noteq> []
      then ''{ '' @ js_join '', '' (map (\<lambda>p. fst p @ '': '' @ snd p) (keyTypePairs a)) @ '' }''
      else [])"

definition getArgument :: "ast js_prop \<Rightarrow> bool \<Rightarrow> string" where
  "getArgument p hasTypes =
     (if hasArguments p
      then (if hasTypes
            then ''data'' @ (case p of Own a \<Rightarrow> getArgumentTypes a | _ \<Rightarrow> [])
            else ''data'')
      else [])"

subsection \<open>Data model\<close>

record Translation =
  tlocale :: string
  data :: "string js_object"

record GroupedTranslation =
  glocale :: string
  gtranslations :: "Translation list"

record ParsedTranslation = Translation +
  asts :: "ast js_object"

record I18nConfig =
  dir :: string
  features :: "string list option"
  locales :: "string list"
  i18n_module :: string
  distDir :: string

record Project =
  i18n :: I18nConfig
  entryExtension :: string

text \<open>The \<^verbatim>\<open>ws.i18n\<close> block of a dependency's manifest; every field may be missing.\<close>

record PkgI18n =
  pkg_dir :: "string option"
  pkg_features :: "string list option"
  pkg_locales :: "string list option"

record TranslatedModule =
  cwd :: string
  tdir :: string
  tfeatures :: "string list"
  localesAndLanguages :: "string list"

subsection \<open>The environment\<close>

text \<open>
  \<open>completionOrder\<close> orders the manifests \<open>globby\<close> found by the completion of
  their reads. \<open>readJsonAsync\<close> gives the \<^verbatim>\<open>ws.i18n\<close> block of a manifest when
  \<^verbatim>\<open>pkg.ws && pkg.ws.i18n\<close> holds. \<open>parse\<close> gives the object the property
  file parses to. \<open>stringifyProto k\<close> and
  \<open>templateProto k\<close> are the texts \<^verbatim>\<open>stringify-object\<close> and a template literal
  produce for the member \<open>k\<close> of \<^verbatim>\<open>Object.prototype\<close>. \<open>removeAsync\<close> and
  \<open>outputFileAsync\<close> say whether the operation fails.
\<close>

record env =
  globby :: "js_error + string list"
  completionOrder :: "string list \<Rightarrow> string list"
  readJsonAsync :: "string \<Rightarrow> js_error + PkgI18n option"
  readFileAsync :: "string \<Rightarrow> js_error + string"
  removeAsync :: "string \<Rightarrow> js_error option"
  outputFileAsync :: "string \<Rightarrow> string \<Rightarrow> js_error option"
  parse :: "string \<Rightarrow> js_error + string js_object"
  parser_parse :: "string \<Rightarrow> js_error + ast"
  camelCase :: "string \<Rightarrow> string"
  stringifyObject :: "ast \<Rightarrow> string"
  stringifyProto :: "string \<Rightarrow> string"
  templateProto :: "string \<Rightarrow> string"
  join :: "string list \<Rightarrow> string"
  dirname :: "string \<Rightarrow> string"
  process_cwd :: string
  concatLanguages :: "string list option \<Rightarrow> js_error + string list"
  isMatchingLocaleOrLanguage :: "string \<Rightarrow> string \<Rightarrow> bool"
  toIntlLocale :: "string \<Rightarrow> js_error + string"
  project :: Project

text \<open>
  The effects on the file system are recorded in the order they are issued: an
  asynchronous operation yields the operations issued and its value or its error.
\<close>

datatype fs_event = Remove string | Output string string

type_synonym 'a io = "fs_event list \<times> (js_error + 'a)"

definition is_output :: "fs_event \<Rightarrow> bool" where
  "is_output ev = (case ev of Remove path \<Rightarrow> False | Output path text \<Rightarrow> True)"

definition perform_remove :: "env \<Rightarrow> string \<Rightarrow> unit io" where
  "perform_remove e path =
     ([Remove path], case removeAsync e path of None \<Rightarrow> Inr () | Some err \<Rightarrow> Inl err)"

definition perform_output :: "env \<Rightarrow> string \<Rightarrow> string \<Rightarrow> unit io" where
  "perform_output e path text =
     ([Output path text],
      case outputFileAsync e path text of None \<Rightarrow> Inr () | Some err \<Rightarrow> Inl err)"

text \<open>
  \<^verbatim>\<open>Promise.all\<close> over operations that were all started: the values, or the error of
  a member that failed (the first in time; here the first in the list). The same function
  serves for a synchronous \<^verbatim>\<open>map\<close> whose callback may throw.
\<close>

fun promise_all :: "(js_error + 'a) list \<Rightarrow> js_error + 'a list" where
  "promise_all [] = Inr []"
| "promise_all (x # xs) =
     (case x of
        Inl err \<Rightarrow> Inl err
      | Inr v \<Rightarrow> (case promise_all xs of Inl err \<Rightarrow> Inl err | Inr vs \<Rightarrow> Inr (v # vs)))"

definition type_error :: js_error where
  "type_error = JsError None ''TypeError''"

subsection \<open>Loading\<close>

definition camelCaseKeys :: "env \<Rightarrow> string js_object \<Rightarrow> string js_object" where
  "camelCaseKeys e obj =
     foldl (\<lambda>acc p. js_set acc (camelCase e (fst p)) (snd p)) [] (js_entries obj)"

text \<open>
  The first half of the promise chain of \<^verbatim>\<open>readTranslation\<close>: read, parse, and
  recover from an error whose code is \<^verbatim>\<open>ENOENT\<close>. The handler follows the
  parser, so it sees the errors of both. The \<^verbatim>\<open>debug\<close> line written to the log
  is left out.
\<close>

definition readProperties :: "env \<Rightarrow> string \<Rightarrow> js_error + string js_object" where
  "readProperties e readPath =
     (case (case readFileAsync e readPath of
              Inl err \<Rightarrow> Inl err
            | Inr content \<Rightarrow> parse e content) of
        Inl err \<Rightarrow> if err_code err = Some ''ENOENT'' then Inr [] else Inl err
      | Inr obj \<Rightarrow> Inr obj)"

definition readTranslation :: "env \<Rightarrow> string \<Rightarrow> string \<Rightarrow> string \<Rightarrow> string \<Rightarrow> js_error + Translation" where
  "readTranslation e c d l feature =
     (let readPath = join e [c, d, feature, l @ ''.properties'']
      in case readProperties e readPath of
           Inl err \<Rightarrow> Inl err
         | Inr obj \<Rightarrow> Inr \<lparr>tlocale = l, data = camelCaseKeys e obj\<rparr>)"

subsection \<open>Emission\<close>

definition GENERATED_WARNING :: string where
  "GENERATED_WARNING = ''// this file was generated by @mercateo/ws - do not modify it manually''"

text \<open>The truth value of \<^verbatim>\<open>translation.asts[key]\<close>: a tree and an inherited member are truthy.\<close>

definition js_truthy :: "'v js_prop \<Rightarrow> bool" where
  "js_truthy p = (case p of Own v \<Rightarrow> True | Inherited \<Rightarrow> True | Undefined \<Rightarrow> False)"

definition stringify :: "env \<Rightarrow> string \<Rightarrow> ast js_prop \<Rightarrow> string" where
  "stringify e key p =
     (case p of
        Own a \<Rightarrow> stringifyObject e a
      | Inherited \<Rightarrow> stringifyProto e key
      | Undefined \<Rightarrow> ''undefined'')"

definition template_value :: "env \<Rightarrow> string \<Rightarrow> string js_prop \<Rightarrow> string" where
  "template_value e key p =
     (case p of
        Own v \<Rightarrow> v
      | Inherited \<Rightarrow> templateProto e key
      | Undefined \<Rightarrow> ''undefined'')"

definition getDocumentation :: "env \<Rightarrow> ParsedTranslation list \<Rightarrow> string \<Rightarrow> string" where
  \<open>getDocumentation e ts key =
     ''\<newline>/**''
     @ js_join [] (map (\<lambda>t. ''\<newline> * `'' @ tlocale t @ ''`: ''
                             @ template_value e key (js_read (data t) key)) ts)
     @ ''\<newline> */''\<close>

definition indent :: "string \<Rightarrow> string \<Rightarrow> string" where
  \<open>indent indentation text = js_join (''\<newline>'' @ indentation) (js_split CHR ''\<newline>'' text)\<close>

definition module_imports :: "string \<Rightarrow> string" where
  \<open>module_imports intlLocale =
     GENERATED_WARNING
     @ ''\<newline>const IntlMessageFormat = require('intl-messageformat');''
     @ ''\<newline>// use intl polyfill for IE 10 and Safari 9''
     @ ''\<newline>require('intl');''
     @ ''\<newline>require('intl/locale-data/jsonp/'' @ intlLocale @ sq @ '');\<newline>''\<close>

definition translation_entry :: "env \<Rightarrow> ParsedTranslation \<Rightarrow> string \<Rightarrow> string" where
  \<open>translation_entry e t key =
     ''\<newline>myModule.'' @ key @ '' = function(''
     @ (if hasArguments (js_read (asts t) key) then ''data'' else [])
     @ '') {''
     @ (if js_truthy (js_read (asts t) key)
        then ''\<newline>  if (!cachedMessages.'' @ key @ '') {''
             @ ''\<newline>    const ast = ''
             @ indent ''    '' (stringify e key (js_read (asts t) key)) @ '';''
             @ ''\<newline>    cachedMessages.'' @ key
             @ '' = new IntlMessageFormat(ast, myModule.INTL_LOCALE);''
             @ ''\<newline>  }\<newline>\<newline>  return cachedMessages.'' @ key @ ''.format(''
             @ (if hasArguments (js_read (asts t) key) then ''data'' else [])
             @ '');''
        else ''return 'Missing key "'' @ key @ ''".';'')
     @ ''\<newline>};\<newline>''\<close>

definition translation_prelude :: "string \<Rightarrow> ParsedTranslation \<Rightarrow> string" where
  \<open>translation_prelude intlLocale t =
     module_imports intlLocale
     @ ''\<newline>var myModule = {};''
     @ ''\<newline>myModule.LOCALE = '' @ sq @ tlocale t @ sq @ '';''
     @ ''\<newline>myModule.INTL_LOCALE = '' @ sq @ intlLocale @ sq @ '';''
     @ ''\<newline>myModule.LANGUAGE_CODE = '' @ sq
     @ js_template (js_nth (js_split CHR ''_'' (tlocale t)) 0) @ sq @ '';''
     @ ''\<newline>myModule.COUNTRY_CODE = '' @ sq
     @ js_template (js_nth (js_split CHR ''_'' (tlocale t)) 1) @ sq @ '';''
     @ ''\<newline>\<newline>const cachedMessages = {};\<newline>''\<close>

definition translation_module :: "env \<Rightarrow> string \<Rightarrow> string list \<Rightarrow> ParsedTranslation \<Rightarrow> string" where
  \<open>translation_module e intlLocale keys t =
     translation_prelude intlLocale t
     @ js_join [] (map (translation_entry e t) keys)
     @ ''\<newline>\<newline>module.exports['mercateo/i18n'] = myModule;\<newline>''\<close>

definition writeTranslation :: "env \<Rightarrow> ParsedTranslation \<Rightarrow> ParsedTranslation \<Rightarrow> unit io" where
  "writeTranslation e defaultTranslation t =
     (let filename = join e [distDir (i18n (project e)), tlocale t @ ''.js''];
          keys = js_keys (data defaultTranslation)
      in case toIntlLocale e (tlocale t) of
           Inl err \<Rightarrow> ([], Inl err)
         | Inr intlLocale \<Rightarrow>
             perform_output e filename (translation_module e intlLocale keys t))"

definition unit_entry :: "env \<Rightarrow> ParsedTranslation \<Rightarrow> string \<Rightarrow> string" where
  \<open>unit_entry e t key =
     ''\<newline>export const '' @ key @ '' = (''
     @ (if hasArguments (js_read (asts t) key) then ''data'' else [])
     @ '') => {''
     @ (if js_truthy (js_read (asts t) key)
        then ''\<newline>    if (!cachedMessages['' @ sq @ key @ sq @ '']) {''
             @ ''\<newline>    const ast = ''
             @ indent ''    '' (stringify e key (js_read (asts t) key)) @ '';''
             @ ''\<newline>    cachedMessages['' @ sq @ key @ sq
             @ ''] = new IntlMessageFormat(ast, INTL_LOCALE);''
             @ ''\<newline>  }\<newline>\<newline>  return cachedMessages['' @ sq @ key @ sq @ ''].format(''
             @ (if hasArguments (js_read (asts t) key) then ''data'' else [])
             @ '');''
        else ''return 'Missing key "'' @ key @ ''".'' @ sq)
     @ ''\<newline>};\<newline>''\<close>

definition unit_prelude :: "string \<Rightarrow> ParsedTranslation \<Rightarrow> string" where
  \<open>unit_prelude intlLocale t =
     module_imports intlLocale
     @ ''\<newline>export const LOCALE = '' @ sq @ tlocale t @ sq @ '';''
     @ ''\<newline>export const INTL_LOCALE = '' @ sq @ intlLocale @ sq @ '';''
     @ ''\<newline>export const LANGUAGE_CODE = '' @ sq
     @ js_template (js_nth (js_split CHR ''_'' (tlocale t)) 0) @ sq @ '';''
     @ ''\<newline>export const COUNTRY_CODE = '' @ sq
     @ js_template (js_nth (js_split CHR ''_'' (tlocale t)) 1) @ sq @ '';''
     @ ''\<newline>\<newline>const cachedMessages = {};\<newline>''\<close>

definition unit_module :: "env \<Rightarrow> string \<Rightarrow> string list \<Rightarrow> ParsedTranslation \<Rightarrow> string" where
  \<open>unit_module e intlLocale keys t =
     unit_prelude intlLocale t
     @ js_join [] (map (unit_entry e t) keys)
     @ ''\<newline>''\<close>

text \<open>
  \<^verbatim>\<open>writeTranslationUnit(parsedTranslations[0])\<close>: with no target locale the argument is
  \<^verbatim>\<open>undefined\<close> and reading its \<^verbatim>\<open>data\<close> throws.
\<close>

definition writeTranslationUnit :: "env \<Rightarrow> ParsedTranslation option \<Rightarrow> unit io" where
  "writeTranslationUnit e translation =
     (let filename = join e [distDir (i18n (project e)), ''unit.js'']
      in case translation of
           None \<Rightarrow> ([], Inl type_error)
         | Some t \<Rightarrow>
             (case toIntlLocale e (tlocale t) of
                Inl err \<Rightarrow> ([], Inl err)
              | Inr intlLocale \<Rightarrow>
                  perform_output e filename (unit_module e intlLocale (js_keys (data t)) t)))"

definition declaration_entry :: "env \<Rightarrow> ParsedTranslation list \<Rightarrow> ParsedTranslation \<Rightarrow> string \<Rightarrow> string" where
  \<open>declaration_entry e ts defaultTranslation key =
     ''\<newline>'' @ getDocumentation e ts key
     @ ''\<newline>  export function '' @ key @ ''(''
     @ (if hasArguments (js_read (asts defaultTranslation) key) then ''data'' else [])
     @ ''): string;''\<close>

definition declaration_module :: "env \<Rightarrow> ParsedTranslation list \<Rightarrow> ParsedTranslation \<Rightarrow> string" where
  \<open>declaration_module e ts defaultTranslation =
     GENERATED_WARNING
     @ ''\<newline>declare module '' @ sq @ i18n_module (i18n (project e)) @ sq @ '' {''
     @ ''\<newline>  /**\<newline>   * Your locale in the format `de_DE`, `en_US`, etc.\<newline>   */''
     @ ''\<newline>  export const LOCALE;\<newline>''
     @ ''\<newline>  /**\<newline>   * Your locale in the format `de-DE`, `en-US`, etc.\<newline>   */''
     @ ''\<newline>  export const INTL_LOCALE;\<newline>''
     @ ''\<newline>  /**\<newline>   * Your language code in the format `de`, `en`, etc.\<newline>   */''
     @ ''\<newline>  export const LANGUAGE_CODE;\<newline>''
     @ ''\<newline>  /**\<newline>   * Your country code in the format `DE`, `US`, etc.\<newline>   */''
     @ ''\<newline>  export const COUNTRY_CODE;''
     @ js_join ''\<newline>''
         (map (declaration_entry e ts defaultTranslation) (js_keys (data defaultTranslation)))
     @ ''\<newline>}\<newline>''\<close>

definition writeDeclaration :: "env \<Rightarrow> ParsedTranslation list \<Rightarrow> unit io" where
  "writeDeclaration e ts =
     (let filename = join e [distDir (i18n (project e)), ''index.d.ts'']
      in case js_nth ts 0 of
           None \<Rightarrow> ([], Inl type_error)
         | Some defaultTranslation \<Rightarrow>
             perform_output e filename (declaration_module e ts defaultTranslation))"

subsection \<open>The compile run\<close>

text \<open>
  A dependency contributes a module when its manifest has a \<^verbatim>\<open>ws.i18n\<close> block. All
  manifest reads are started at once and each callback pushes when its own read completes,
  so the dependency modules are listed in the order of completion, which the code does not
  fix: \<open>completionOrder e deps\<close> is the list \<open>deps\<close> in the order in which the reads
  complete in the run at hand. The local project is pushed after all of them.
\<close>

definition dependencyModule :: "env \<Rightarrow> string \<Rightarrow> js_error + TranslatedModule option" where
  "dependencyModule e dep =
     (case readJsonAsync e dep of
        Inl err \<Rightarrow> Inl err
      | Inr None \<Rightarrow> Inr None
      | Inr (Some cfg) \<Rightarrow>
          (case concatLanguages e (pkg_locales cfg) of
             Inl err \<Rightarrow> Inl err
           | Inr ls \<Rightarrow>
               Inr (Some \<lparr>cwd = dirname e dep,
                          tdir = (case pkg_dir cfg of
                                    None \<Rightarrow> ''i18n''
                                  | Some d \<Rightarrow> if d = [] then ''i18n'' else d),
                          tfeatures = (case pkg_features cfg of None \<Rightarrow> [[]] | Some fs \<Rightarrow> fs),
                          localesAndLanguages = ls\<rparr>)))"

definition translatedModules :: "env \<Rightarrow> js_error + TranslatedModule list" where
  "translatedModules e =
     (case globby e of
        Inl err \<Rightarrow> Inl err
      | Inr deps \<Rightarrow>
          (case promise_all (map (dependencyModule e) (completionOrder e deps)) of
             Inl err \<Rightarrow> Inl err
           | Inr ms \<Rightarrow>
               (case concatLanguages e (Some (locales (i18n (project e)))) of
                  Inl err \<Rightarrow> Inl err
                | Inr ls \<Rightarrow>
                    Inr (List.map_filter (\<lambda>m. m) ms
                         @ [\<lparr>cwd = process_cwd e,
                              tdir = dir (i18n (project e)),
                              tfeatures = (case features (i18n (project e)) of
                                             None \<Rightarrow> [[]]
                                           | Some fs \<Rightarrow> fs),
                              localesAndLanguages = ls\<rparr>]))))"

text \<open>The reads, in the order the three nested \<^verbatim>\<open>forEach\<close> loops issue them.\<close>

definition readRequests :: "TranslatedModule list \<Rightarrow> (string \<times> string \<times> string \<times> string) list" where
  "readRequests ms =
     concat (map (\<lambda>m. concat (map (\<lambda>feature.
                           map (\<lambda>localeOrLanguage. (cwd m, tdir m, localeOrLanguage, feature))
                               (localesAndLanguages m))
                         (tfeatures m)))
                 ms)"

definition readTranslations :: "env \<Rightarrow> TranslatedModule list \<Rightarrow> js_error + Translation list" where
  "readTranslations e ms =
     promise_all (map (\<lambda>(c, d, l, feature). readTranslation e c d l feature) (readRequests ms))"

definition groupedTranslations :: "env \<Rightarrow> Translation list \<Rightarrow> GroupedTranslation list" where
  "groupedTranslations e ts =
     map (\<lambda>l. \<lparr>glocale = l,
                gtranslations = filter (\<lambda>t. isMatchingLocaleOrLanguage e (tlocale t) l) ts\<rparr>)
         (locales (i18n (project e)))"

definition mergedTranslation :: "GroupedTranslation \<Rightarrow> Translation" where
  "mergedTranslation g =
     \<lparr>tlocale = glocale g,
      data = foldl (\<lambda>acc t. js_assign acc (data t)) [] (rev (gtranslations g))\<rparr>"

definition mergedTranslations :: "GroupedTranslation list \<Rightarrow> Translation list" where
  "mergedTranslations gs = map mergedTranslation gs"

fun parseAsts :: "env \<Rightarrow> (string \<times> string) list \<Rightarrow> ast js_object \<Rightarrow> js_error + ast js_object" where
  "parseAsts e [] acc = Inr acc"
| "parseAsts e (p # ps) acc =
     (case parser_parse e (snd p) of
        Inl err \<Rightarrow> Inl err
      | Inr a \<Rightarrow> parseAsts e ps (js_set acc (fst p) a))"

definition parsedTranslation :: "env \<Rightarrow> Translation \<Rightarrow> js_error + ParsedTranslation" where
  "parsedTranslation e t =
     (case parseAsts e (js_entries (data t)) [] of
        Inl err \<Rightarrow> Inl err
      | Inr as \<Rightarrow> Inr \<lparr>tlocale = tlocale t, data = data t, asts = as\<rparr>)"

definition parsedTranslations :: "env \<Rightarrow> Translation list \<Rightarrow> js_error + ParsedTranslation list" where
  "parsedTranslations e ts = promise_all (map (parsedTranslation e) ts)"

text \<open>Everything \<^verbatim>\<open>compileI18n\<close> does before it touches the output directory.\<close>

definition loadTranslations :: "env \<Rightarrow> js_error + ParsedTranslation list" where
  "loadTranslations e =
     (case translatedModules e of
        Inl err \<Rightarrow> Inl err
      | Inr ms \<Rightarrow>
          (case readTranslations e ms of
             Inl err \<Rightarrow> Inl err
           | Inr ts \<Rightarrow> parsedTranslations e (mergedTranslations (groupedTranslations e ts))))"

text \<open>
  The per-locale writes are all started; the compile goes on to the unit module when
  none of them failed, and to the declaration when the unit module was written.
\<close>

definition writeTranslations :: "env \<Rightarrow> ParsedTranslation list \<Rightarrow> unit list io" where
  "writeTranslations e ps =
     (case ps of
        [] \<Rightarrow> ([], Inr [])
      | defaultTranslation # _ \<Rightarrow>
          (concat (map (\<lambda>p. fst (writeTranslation e defaultTranslation p)) ps),
           promise_all (map (\<lambda>p. snd (writeTranslation e defaultTranslation p)) ps)))"

definition emit :: "env \<Rightarrow> ParsedTranslation list \<Rightarrow> unit io" where
  "emit e ps =
     (case perform_remove e (distDir (i18n (project e))) of
        (ev0, Inl err) \<Rightarrow> (ev0, Inl err)
      | (ev0, Inr _) \<Rightarrow>
          (case writeTranslations e ps of
             (ev1, Inl err) \<Rightarrow> (ev0 @ ev1, Inl err)
           | (ev1, Inr _) \<Rightarrow>
               (case writeTranslationUnit e (js_nth ps 0) of
                  (ev2, Inl err) \<Rightarrow> (ev0 @ ev1 @ ev2, Inl err)
                | (ev2, Inr _) \<Rightarrow>
                    if entryExtension (project e) \<noteq> ''js''
                    then (case writeDeclaration e ps of
                            (ev3, r) \<Rightarrow> (ev0 @ ev1 @ ev2 @ ev3, r))
                    else (ev0 @ ev1 @ ev2, Inr ()))))"

definition compileI18n :: "env \<Rightarrow> unit io" where
  "compileI18n e =
     (case loadTranslations e of
        Inl err \<Rightarrow> ([], Inl err)
      | Inr ps \<Rightarrow> emit e ps)"

subsection \<open>The inference rule of the specification\<close>

text \<open>
  The placeholders of a message, one per name, and the type the specification assigns to
  a placeholder: \<^verbatim>\<open>number\<close> for a plural format, the union of the quoted selectors
  with \<^verbatim>\<open>string\<close> in place of \<^verbatim>\<open>other\<close> for a select format, and
  \<^verbatim>\<open>string\<close> otherwise.
\<close>

definition placeholders :: "ast \<Rightarrow> element list" where
  "placeholders a = uniqBy (filter (\<lambda>e. etype e = ''argumentElement'') (elements a)) eid"

definition inferredType :: "element \<Rightarrow> string" where
  "inferredType e =
     (case eformat e of
        None \<Rightarrow> ''string''
      | Some f \<Rightarrow>
          if ftype f = ''pluralFormat'' then ''number''
          else if ftype f = ''selectFormat''
          then js_join '' | '' (map (\<lambda>s. if s = ''other'' then ''string'' else sq @ s @ sq)
                                   (map selector (foptions f)))
          else ''string'')"

subsection \<open>A sample project\<close>

text \<open>
  A project with the target locales \<^verbatim>\<open>en_GB\<close> and \<^verbatim>\<open>de\<close> and one dependency
  that ships translations. The dependency and the project both define
  \<^verbatim>\<open>greeting\<close> for \<^verbatim>\<open>en_GB\<close>, and the item count under two spellings;
  the German file of the project has no item count. A property file is written here as
  \<^verbatim>\<open>key=value\<close> pairs separated by commas. The language fallback of the sample
  is one behaviour \<^verbatim>\<open>../lib/i18n\<close> may have: a list of locales is followed by
  the languages of its locales, and a tag matches a locale when it is the locale or its
  language.
\<close>

definition language :: "string \<Rightarrow> string" where
  "language l = takeWhile (\<lambda>c. c \<noteq> CHR ''_'') l"

definition example_files :: "(string \<times> string) list" where
  "example_files =
     [(''node_modules/lib/i18n/en_GB.properties'', ''greeting=hi,ItemCount={n} items''),
      (''/app/src/en_GB.properties'', ''greeting=hello,item_count={n} items''),
      (''/app/src/de.properties'', ''greeting=hallo'')]"

definition example_env :: env where
  "example_env =
     \<lparr>globby = Inr [''node_modules/lib/package.json''],
      completionOrder = (\<lambda>deps. deps),
      readJsonAsync = (\<lambda>p. Inr (Some \<lparr>pkg_dir = None, pkg_features = None,
                                         pkg_locales = Some [''en_GB'']\<rparr>)),
      readFileAsync = (\<lambda>p. case map_of example_files p of
                              None \<Rightarrow> Inl (JsError (Some ''ENOENT'') ''no such file'')
                            | Some content \<Rightarrow> Inr content),
      removeAsync = (\<lambda>p. None),
      outputFileAsync = (\<lambda>p d. None),
      parse = (\<lambda>s. Inr (map (\<lambda>line. (takeWhile (\<lambda>c. c \<noteq> CHR ''='') line,
                                      drop 1 (dropWhile (\<lambda>c. c \<noteq> CHR ''='') line)))
                         (js_split CHR '','' s))),
      parser_parse = (\<lambda>s. Inr (Ast (if s = ''{n} items''
                                      then [Element ''argumentElement'' ''n'' None,
                                            Element ''messageTextElement'' [] None]
                                      else [Element ''messageTextElement'' [] None]))),
      camelCase = (\<lambda>k. if k = ''item_count'' \<or> k = ''ItemCount'' then ''itemCount'' else k),
      stringifyObject = (\<lambda>a. ''{ elements: '' @ (if hasArguments (Own a) then ''2'' else ''1'') @ '' }''),
      stringifyProto = (\<lambda>k. ''function '' @ (if k = ''constructor'' then ''Object'' else k)
                              @ ''() { [native code] }''),
      templateProto = (\<lambda>k. ''function '' @ (if k = ''constructor'' then ''Object'' else k)
                             @ ''() { [native code] }''),
      join = (\<lambda>xs. js_join ''/'' (filter (\<lambda>x. x \<noteq> []) xs)),
      dirname = (\<lambda>p. ''node_modules/lib''),
      process_cwd = ''/app'',
      concatLanguages = (\<lambda>ls. case ls of
                                 None \<Rightarrow> Inl type_error
                               | Some l \<Rightarrow> Inr (remdups (l @ map language l))),
      isMatchingLocaleOrLanguage = (\<lambda>x l. x = l \<or> x = language l),
      toIntlLocale = (\<lambda>l. Inr (map (\<lambda>c. if c = CHR ''_'' then CHR ''-'' else c) l)),
      project = \<lparr>i18n = \<lparr>dir = ''src'', features = None, locales = [''en_GB'', ''de''],
                          i18n_module = ''my-i18n'', distDir = ''dist-i18n''\<rparr>,
                 entryExtension = ''ts''\<rparr>\<rparr>"

text \<open>What the sample project loads for its two locales.\<close>

definition example_en :: ParsedTranslation where
  "example_en =
     \<lparr>tlocale = ''en_GB'',
      data = [(''greeting'', ''hi''), (''itemCount'', ''{n} items'')],
      asts = [(''greeting'', Ast [Element ''messageTextElement'' [] None]),
              (''itemCount'', Ast [Element ''argumentElement'' ''n'' None,
                                   Element ''messageTextElement'' [] None])]\<rparr>"

definition example_de :: ParsedTranslation where
  "example_de =
     \<lparr>tlocale = ''de'',
      data = [(''greeting'', ''hallo'')],
      asts = [(''greeting'', Ast [Element ''messageTextElement'' [] None])]\<rparr>"

text \<open>The same project when the German file cannot be read for lack of permission.\<close>

definition unreadable_env :: env where
  "unreadable_env =
     example_env
       \<lparr>readFileAsync := (\<lambda>p. if p = ''/app/src/de.properties''
                                then Inl (JsError (Some ''EACCES'') ''permission denied'')
                                else readFileAsync example_env p)\<rparr>"

text \<open>The same project when the output directory cannot be removed.\<close>

definition locked_env :: env where
  "locked_env =
     example_env
       \<lparr>removeAsync := (\<lambda>p. Some (JsError (Some ''EPERM'') ''operation not permitted''))\<rparr>"

text \<open>
  A project without dependencies whose default locale \<^verbatim>\<open>en\<close> has the single key
  \<^verbatim>\<open>constructor\<close> and whose second locale \<^verbatim>\<open>de\<close> has no file.
\<close>

definition inherited_env :: env where
  "inherited_env =
     example_env
       \<lparr>globby := Inr [],
        readFileAsync := (\<lambda>p. if p = ''/app/src/en.properties''
                                then Inr ''constructor=Builder''
                                else Inl (JsError (Some ''ENOENT'') ''no such file'')),
        project := \<lparr>i18n = \<lparr>dir = ''src'', features = None, locales = [''en'', ''de''],
                             i18n_module = ''my-i18n'', distDir = ''dist-i18n''\<rparr>,
                    entryExtension = ''js''\<rparr>\<rparr>"

section \<open>Properties\<close>

subsection \<open>Objects\<close>

lemma distinct_map_insort_key:
  "distinct (map f (insort_key g x xs)) = (f x \<notin> f ` set xs \<and> distinct (map f xs))"
  by (induction xs) (auto simp: set_insort_key)

lemma distinct_map_sort_key:
  "distinct (map f (sort_key g xs)) = distinct (map f xs)"
  by (induction xs) (simp_all add: distinct_map_insort_key)

lemma set_js_entries: "set (js_entries obj) = set obj"
  by (auto simp: js_entries_def)

lemma set_js_keys: "set (js_keys obj) = fst ` set obj"
  by (simp add: js_keys_def set_js_entries)

lemma distinct_js_entries:
  "distinct (map fst obj) \<Longrightarrow> distinct (map fst (js_entries obj))"
  by (auto simp: js_entries_def distinct_map_sort_key distinct_map_filter)

lemma map_of_js_entries:
  "distinct (map fst obj) \<Longrightarrow> map_of (js_entries obj) = map_of obj"
  by (simp add: map_of_inject_set distinct_js_entries set_js_entries)

lemma map_of_foldl_js_set:
  "map_of (foldl (\<lambda>a p. js_set a (f (fst p)) (snd p)) acc es) k
     = (case map_of (map (\<lambda>p. (f (fst p), snd p)) (rev es)) k of
          None \<Rightarrow> map_of acc k
        | Some v \<Rightarrow> Some v)"
  by (induction es arbitrary: acc) (auto simp: js_set_def update_conv' split: option.splits)

lemma distinct_foldl_js_set:
  "distinct (map fst acc) \<Longrightarrow>
   distinct (map fst (foldl (\<lambda>a p. js_set a (f (fst p)) (snd p)) acc es))"
  by (induction es arbitrary: acc) (simp_all add: js_set_def distinct_update)

lemma keys_foldl_js_set:
  "fst ` set (foldl (\<lambda>a p. js_set a (f (fst p)) (snd p)) acc es)
     = fst ` set acc \<union> f ` fst ` set es"
  by (induction es arbitrary: acc) (auto simp: js_set_def dom_update)

lemma map_of_rev_distinct:
  "distinct (map fst es) \<Longrightarrow> map_of (rev es) = map_of es"
  by (simp add: map_of_inject_set rev_map[symmetric])

lemma map_of_js_assign:
  assumes "distinct (map fst src)"
  shows "map_of (js_assign acc src) k
           = (case map_of src k of None \<Rightarrow> map_of acc k | Some v \<Rightarrow> Some v)"
proof -
  have d: "distinct (map fst (js_entries src))"
    using assms by (rule distinct_js_entries)
  have "map_of (js_assign acc src) k
      = (case map_of (map (\<lambda>p. (fst p, snd p)) (rev (js_entries src))) k of
           None \<Rightarrow> map_of acc k | Some v \<Rightarrow> Some v)"
    unfolding js_assign_def using map_of_foldl_js_set[of "\<lambda>x. x" acc "js_entries src" k] by simp
  also have "map (\<lambda>p. (fst p, snd p)) (rev (js_entries src)) = rev (js_entries src)"
    by simp
  also have "map_of (rev (js_entries src)) = map_of src"
    using d assms by (simp add: map_of_rev_distinct map_of_js_entries)
  finally show ?thesis .
qed

lemma distinct_js_assign:
  "distinct (map fst acc) \<Longrightarrow> distinct (map fst (js_assign acc src))"
  unfolding js_assign_def using distinct_foldl_js_set[of acc "\<lambda>x. x"] by simp

lemma js_split_no_separator: "c \<notin> set s \<Longrightarrow> js_split c s = [s]"
  by (induction s) auto

lemma js_join_member:
  "x \<in> set xs \<Longrightarrow> \<exists>pre post. js_join sep xs = pre @ x @ post"
proof (induction sep xs rule: js_join.induct)
  case (1 sep)
  then show ?case by simp
next
  case (2 sep y)
  then have "js_join sep [y] = [] @ x @ []" by simp
  then show ?case by blast
next
  case (3 sep y z zs)
  show ?case
  proof (cases "x = y")
    case True
    then have "js_join sep (y # z # zs) = [] @ x @ (sep @ js_join sep (z # zs))" by simp
    then show ?thesis by blast
  next
    case False
    with 3 obtain pre post where "js_join sep (z # zs) = pre @ x @ post" by auto
    then have "js_join sep (y # z # zs) = (y @ sep @ pre) @ x @ post" by simp
    then show ?thesis by blast
  qed
qed

lemma promise_all_error:
  "x \<in> set xs \<Longrightarrow> isl x \<Longrightarrow> isl (promise_all xs)"
proof (induction xs)
  case Nil
  then show ?case by simp
next
  case (Cons y ys)
  show ?case
  proof (cases y)
    case (Inl err)
    then show ?thesis by simp
  next
    case (Inr v)
    with Cons have "isl (promise_all ys)" by auto
    with Inr show ?thesis by (cases "promise_all ys") simp_all
  qed
qed

lemma find_filter:
  "find P (filter Q xs) = find (\<lambda>x. Q x \<and> P x) xs"
  by (induction xs) auto

subsection \<open>Argument types\<close>

lemma baseUniq_map:
  "baseUniq fst seen (map (\<lambda>e. (f e, g e)) xs) = map (\<lambda>e. (f e, g e)) (baseUniq f seen xs)"
  by (induction xs arbitrary: seen) auto

lemma baseUniq_keys:
  "set (map f (baseUniq f seen xs)) = set (map f xs) - set seen"
  by (induction xs arbitrary: seen) auto

lemma baseUniq_distinct:
  "distinct (map f (baseUniq f seen xs))"
proof (induction xs arbitrary: seen)
  case Nil
  show ?case by simp
next
  case (Cons x xs)
  have "f x \<notin> set (map f (baseUniq f (seen @ [f x]) xs))"
    unfolding baseUniq_keys by simp
  with Cons show ?case by simp
qed

lemma baseUniq_map_of:
  "map_of (baseUniq fst seen ps) k = (if k \<in> set seen then None else map_of ps k)"
  by (induction ps arbitrary: seen) auto

lemma map_of_find:
  "map_of (map (\<lambda>e. (f e, g e)) xs) k = map_option g (find (\<lambda>e. f e = k) xs)"
  by (induction xs) auto

lemma argumentType_inferredType: "argumentType e = inferredType e"
  by (cases "eformat e") (simp_all add: argumentType_def inferredType_def comp_def)

text \<open>
  Claim C4. The key and type pairs that \<^verbatim>\<open>getArgumentTypes\<close> renders are the
  placeholders of the message de-duplicated by name, each with the type of the inference
  rule: \<^verbatim>\<open>number\<close> for a plural format, the union of the quoted selectors with
  \<^verbatim>\<open>string\<close> for \<^verbatim>\<open>other\<close> for a select format, \<^verbatim>\<open>string\<close> otherwise.
  Mapping to types before or after the de-duplication gives the same list.
\<close>

theorem getArgumentTypes_inference:
  "keyTypePairs a = map (\<lambda>e. (eid e, inferredType e)) (placeholders a)
   \<and> getArgumentTypes a =
       (if placeholders a = [] then []
        else ''{ '' @ js_join '', '' (map (\<lambda>e. eid e @ '': '' @ inferredType e) (placeholders a))
             @ '' }'')"
  by (simp add: keyTypePairs_def getArgumentTypes_def placeholders_def uniqBy_def
      baseUniq_map argumentType_inferredType comp_def)

theorem getArgumentTypes_inference_witness:
  "getArgumentTypes
     (Ast [Element ''argumentElement'' ''n'' (Some (Format ''pluralFormat'' [])),
           Element ''messageTextElement'' [] None,
           Element ''argumentElement'' ''g''
             (Some (Format ''selectFormat''
                [FormatOption ''male'' (Ast []), FormatOption ''female'' (Ast []),
                 FormatOption ''other'' (Ast [])])),
           Element ''argumentElement'' ''n'' None,
           Element ''argumentElement'' ''d'' (Some (Format ''dateFormat'' []))])
   = ''{ n: number, g: 'male' | 'female' | string, d: string }''"
  using getArgumentTypes_inference
    [of "Ast [Element ''argumentElement'' ''n'' (Some (Format ''pluralFormat'' [])),
           Element ''messageTextElement'' [] None,
           Element ''argumentElement'' ''g''
             (Some (Format ''selectFormat''
                [FormatOption ''male'' (Ast []), FormatOption ''female'' (Ast []),
                 FormatOption ''other'' (Ast [])])),
           Element ''argumentElement'' ''n'' None,
           Element ''argumentElement'' ''d'' (Some (Format ''dateFormat'' []))]"]
  by (simp add: placeholders_def uniqBy_def inferredType_def)

text \<open>
  Claim C9. When a placeholder name occurs more than once, the type kept for the name is
  the type of its first placeholder element in element order, and the name is listed
  once.
\<close>

theorem first_placeholder_determines_type:
  "map_of (keyTypePairs a) k =
     (case find (\<lambda>e. etype e = ''argumentElement'' \<and> eid e = k) (elements a) of
        None \<Rightarrow> None
      | Some e \<Rightarrow> Some (argumentType e))
   \<and> distinct (map fst (keyTypePairs a))"
  by (simp add: keyTypePairs_def uniqBy_def baseUniq_map_of baseUniq_distinct map_of_find
      find_filter split: option.splits)

theorem first_placeholder_determines_type_witness:
  "map_of (keyTypePairs
      (Ast [Element ''argumentElement'' ''n'' None,
            Element ''argumentElement'' ''n'' (Some (Format ''pluralFormat'' []))])) ''n''
     = Some ''string''
   \<and> getArgumentTypes
      (Ast [Element ''argumentElement'' ''n'' None,
            Element ''argumentElement'' ''n'' (Some (Format ''pluralFormat'' []))])
     = ''{ n: string }''"
  using first_placeholder_determines_type
    [of "Ast [Element ''argumentElement'' ''n'' None,
              Element ''argumentElement'' ''n'' (Some (Format ''pluralFormat'' []))]" "''n''"]
  by (simp add: argumentType_def getArgumentTypes_def keyTypePairs_def uniqBy_def)


subsection \<open>Merging\<close>




lemma distinct_camelCaseKeys: "distinct (map fst (camelCaseKeys e obj))"
  unfolding camelCaseKeys_def
  using distinct_foldl_js_set[of "[]" "camelCase e" "js_entries obj"] by simp









lemma load_example: "loadTranslations example_env = Inr [example_en, example_de]"
  by code_simp





subsection \<open>Loading\<close>

lemma keys_camelCaseKeys: "set (js_keys (camelCaseKeys e obj)) = camelCase e ` set (js_keys obj)"
  unfolding camelCaseKeys_def set_js_keys
  using keys_foldl_js_set[of "camelCase e" "[]" "js_entries obj"]
  by (simp add: set_js_entries)

lemma camelCaseKeys_empty: "camelCaseKeys e [] = []"
  by (simp add: camelCaseKeys_def js_entries_def)

lemma distinct_js_keys: "distinct (map fst obj) \<Longrightarrow> distinct (js_keys obj)"
  by (simp add: js_keys_def distinct_js_entries)

lemma distinct_count_one:
  "distinct xs \<Longrightarrow> x \<in> set xs \<Longrightarrow> length (filter (\<lambda>y. y = x) xs) = 1"
  by (induction xs) (auto simp: filter_empty_conv)

text \<open>
  Claim C7. The keys of a Translation the loader produces are the images under
  \<^verbatim>\<open>camelCase\<close> of the keys of the parsed file, so the normalisation happens at read
  time, on what the merge later receives. When two files spell a key differently and both
  spellings have the same image, the two Translations carry the same key, and the mapping
  merged from them has that key once, with the value of the first of the two.
\<close>

theorem keys_normalized_on_read:
  assumes "readProperties e (join e [c1, d1, f1, l1 @ ''.properties'']) = Inr obj1"
      and "readProperties e (join e [c2, d2, f2, l2 @ ''.properties'']) = Inr obj2"
  shows "readTranslation e c1 d1 l1 f1 = Inr \<lparr>tlocale = l1, data = camelCaseKeys e obj1\<rparr>
         \<and> readTranslation e c2 d2 l2 f2 = Inr \<lparr>tlocale = l2, data = camelCaseKeys e obj2\<rparr>
         \<and> set (js_keys (camelCaseKeys e obj1)) = camelCase e ` set (js_keys obj1)
         \<and> set (js_keys (camelCaseKeys e obj2)) = camelCase e ` set (js_keys obj2)
         \<and> (\<forall>k1\<in>set (js_keys obj1). \<forall>k2\<in>set (js_keys obj2).
               camelCase e k1 = camelCase e k2 \<longrightarrow>
                 camelCase e k1 \<in> set (js_keys (camelCaseKeys e obj1))
                 \<and> camelCase e k1 \<in> set (js_keys (camelCaseKeys e obj2))
                 \<and> length (filter (\<lambda>k. k = camelCase e k1)
                      (js_keys (data (mergedTranslation
                         \<lparr>glocale = l,
                          gtranslations = [\<lparr>tlocale = l1, data = camelCaseKeys e obj1\<rparr>,
                                           \<lparr>tlocale = l2, data = camelCaseKeys e obj2\<rparr>]\<rparr>)))) = 1
                 \<and> js_read (data (mergedTranslation
                         \<lparr>glocale = l,
                          gtranslations = [\<lparr>tlocale = l1, data = camelCaseKeys e obj1\<rparr>,
                                           \<lparr>tlocale = l2, data = camelCaseKeys e obj2\<rparr>]\<rparr>))
                            (camelCase e k1)
                     = js_read (camelCaseKeys e obj1) (camelCase e k1))"
proof -
  define A where "A = camelCaseKeys e obj1"
  define B where "B = camelCaseKeys e obj2"
  define m where "m = data (mergedTranslation
                         \<lparr>glocale = l,
                          gtranslations = [\<lparr>tlocale = l1, data = A\<rparr>, \<lparr>tlocale = l2, data = B\<rparr>]\<rparr>)"
  have rA: "readTranslation e c1 d1 l1 f1 = Inr \<lparr>tlocale = l1, data = A\<rparr>"
    using assms(1) by (simp add: readTranslation_def A_def)
  have rB: "readTranslation e c2 d2 l2 f2 = Inr \<lparr>tlocale = l2, data = B\<rparr>"
    using assms(2) by (simp add: readTranslation_def B_def)
  have kA: "set (js_keys A) = camelCase e ` set (js_keys obj1)"
    by (simp add: A_def keys_camelCaseKeys)
  have kB: "set (js_keys B) = camelCase e ` set (js_keys obj2)"
    by (simp add: B_def keys_camelCaseKeys)
  have dA: "distinct (map fst A)" and dB: "distinct (map fst B)"
    by (simp_all add: A_def B_def distinct_camelCaseKeys)
  have m_eq: "m = js_assign (js_assign [] B) A"
    by (simp add: m_def mergedTranslation_def)
  have dm: "distinct (js_keys m)"
    unfolding m_eq by (intro distinct_js_keys distinct_js_assign) simp
  have lookup: "map_of m k = (case map_of A k of None \<Rightarrow> map_of B k | Some v \<Rightarrow> Some v)"
    for k
    unfolding m_eq
    by (simp add: map_of_js_assign[OF dA] map_of_js_assign[OF dB] split: option.splits)
  have coll: "camelCase e k1 \<in> set (js_keys A)
              \<and> camelCase e k1 \<in> set (js_keys B)
              \<and> length (filter (\<lambda>k. k = camelCase e k1) (js_keys m)) = 1
              \<and> js_read m (camelCase e k1) = js_read A (camelCase e k1)"
    if k1: "k1 \<in> set (js_keys obj1)" and k2: "k2 \<in> set (js_keys obj2)"
      and eq: "camelCase e k1 = camelCase e k2" for k1 k2
  proof -
    have inA: "camelCase e k1 \<in> set (js_keys A)" using k1 kA by blast
    have inB: "camelCase e k1 \<in> set (js_keys B)" using k2 kB eq by force
    from inA obtain v where v: "map_of A (camelCase e k1) = Some v"
      unfolding set_js_keys by (metis map_of_eq_None_iff not_Some_eq)
    then have mv: "map_of m (camelCase e k1) = Some v" by (simp add: lookup)
    then have "camelCase e k1 \<in> set (js_keys m)"
      unfolding set_js_keys by (metis map_of_eq_None_iff option.distinct(1))
    with dm have "length (filter (\<lambda>k. k = camelCase e k1) (js_keys m)) = 1"
      by (rule distinct_count_one)
    moreover have "js_read m (camelCase e k1) = js_read A (camelCase e k1)"
      using v mv by (simp add: js_read_def)
    ultimately show ?thesis using inA inB by simp
  qed
  from rA rB kA kB coll show ?thesis unfolding m_def A_def B_def by blast
qed

theorem keys_normalized_on_read_witness:
  "readProperties example_env
       (join example_env [''node_modules/lib'', ''i18n'', [], ''en_GB'' @ ''.properties''])
     = Inr [(''greeting'', ''hi''), (''ItemCount'', ''{n} items'')]
   \<and> readProperties example_env
       (join example_env [''/app'', ''src'', [], ''en_GB'' @ ''.properties''])
     = Inr [(''greeting'', ''hello''), (''item_count'', ''{n} items'')]
   \<and> ''ItemCount'' \<in> set (js_keys [(''greeting'', ''hi''), (''ItemCount'', ''{n} items'')])
   \<and> ''item_count'' \<in> set (js_keys [(''greeting'', ''hello''), (''item_count'', ''{n} items'')])
   \<and> camelCase example_env ''ItemCount'' = camelCase example_env ''item_count''
   \<and> readTranslation example_env ''node_modules/lib'' ''i18n'' ''en_GB'' []
       = Inr \<lparr>tlocale = ''en_GB'', data = [(''greeting'', ''hi''), (''itemCount'', ''{n} items'')]\<rparr>
   \<and> readTranslation example_env ''/app'' ''src'' ''en_GB'' []
       = Inr \<lparr>tlocale = ''en_GB'', data = [(''greeting'', ''hello''), (''itemCount'', ''{n} items'')]\<rparr>
   \<and> length (filter (\<lambda>k. k = ''itemCount'')
        (js_keys (data (mergedTranslation
           \<lparr>glocale = ''en_GB'',
            gtranslations =
              [\<lparr>tlocale = ''en_GB'', data = [(''greeting'', ''hi''), (''itemCount'', ''{n} items'')]\<rparr>,
               \<lparr>tlocale = ''en_GB'',
                data = [(''greeting'', ''hello''), (''itemCount'', ''{n} items'')]\<rparr>]\<rparr>)))) = 1"
proof -
  have h1: "readProperties example_env
       (join example_env [''node_modules/lib'', ''i18n'', [], ''en_GB'' @ ''.properties''])
     = Inr [(''greeting'', ''hi''), (''ItemCount'', ''{n} items'')]"
    by code_simp
  have h2: "readProperties example_env
       (join example_env [''/app'', ''src'', [], ''en_GB'' @ ''.properties''])
     = Inr [(''greeting'', ''hello''), (''item_count'', ''{n} items'')]"
    by code_simp
  have k1: "''ItemCount'' \<in> set (js_keys [(''greeting'', ''hi''), (''ItemCount'', ''{n} items'')])"
    by code_simp
  have k2: "''item_count'' \<in> set (js_keys [(''greeting'', ''hello''), (''item_count'', ''{n} items'')])"
    by code_simp
  have c1: "camelCase example_env ''ItemCount'' = ''itemCount''"
    by code_simp
  have c2: "camelCase example_env ''item_count'' = ''itemCount''"
    by code_simp
  have c: "camelCase example_env ''ItemCount'' = camelCase example_env ''item_count''"
    unfolding c1 c2 ..
  have a1: "camelCaseKeys example_env [(''greeting'', ''hi''), (''ItemCount'', ''{n} items'')]
              = [(''greeting'', ''hi''), (''itemCount'', ''{n} items'')]"
    by code_simp
  have a2: "camelCaseKeys example_env [(''greeting'', ''hello''), (''item_count'', ''{n} items'')]
              = [(''greeting'', ''hello''), (''itemCount'', ''{n} items'')]"
    by code_simp
  note t = keys_normalized_on_read[OF h1 h2, of "''en_GB''", unfolded a1 a2]
  note r1 = t[THEN conjunct1]
  note r2 = t[THEN conjunct2, THEN conjunct1]
  note coll = t[THEN conjunct2, THEN conjunct2, THEN conjunct2, THEN conjunct2,
                rule_format, OF k1 k2 c, unfolded c1]
  note len = coll[THEN conjunct2, THEN conjunct2, THEN conjunct1]
  show ?thesis
    by (intro conjI) (rule h1 h2 k1 k2 c r1 r2 len)+
qed

text \<open>
  Claim C3. A read that fails with the code \<^verbatim>\<open>ENOENT\<close> gives a Translation of the
  requested locale with an empty data mapping. A read that fails with any other error
  makes \<^verbatim>\<open>readTranslation\<close> fail with that error, and a compile run that issues this
  read fails before it has touched the output directory.
\<close>

theorem readTranslation_missing_file:
  "(readFileAsync e (join e [c, d, feature, l @ ''.properties'']) = Inl err
      \<longrightarrow> err_code err = Some ''ENOENT''
      \<longrightarrow> readTranslation e c d l feature = Inr \<lparr>tlocale = l, data = []\<rparr>)
   \<and> (readFileAsync e (join e [c, d, feature, l @ ''.properties'']) = Inl err
      \<longrightarrow> err_code err \<noteq> Some ''ENOENT''
      \<longrightarrow> readTranslation e c d l feature = Inl err
          \<and> (\<forall>ms. translatedModules e = Inr ms \<longrightarrow> (c, d, l, feature) \<in> set (readRequests ms)
                \<longrightarrow> fst (compileI18n e) = [] \<and> isl (snd (compileI18n e))))"
proof (intro conjI impI allI)
  assume "readFileAsync e (join e [c, d, feature, l @ ''.properties'']) = Inl err"
    and "err_code err = Some ''ENOENT''"
  then show "readTranslation e c d l feature = Inr \<lparr>tlocale = l, data = []\<rparr>"
    by (simp add: readTranslation_def readProperties_def camelCaseKeys_empty)
next
  assume f: "readFileAsync e (join e [c, d, feature, l @ ''.properties'']) = Inl err"
    and n: "err_code err \<noteq> Some ''ENOENT''"
  then show r: "readTranslation e c d l feature = Inl err"
    by (simp add: readTranslation_def readProperties_def)
  fix ms
  assume ms: "translatedModules e = Inr ms" and req: "(c, d, l, feature) \<in> set (readRequests ms)"
  have "isl (readTranslations e ms)"
    unfolding readTranslations_def
  proof (rule promise_all_error)
    show "readTranslation e c d l feature
            \<in> set (map (\<lambda>(c, d, l, feature). readTranslation e c d l feature) (readRequests ms))"
      using req by force
    show "isl (readTranslation e c d l feature)" using r by simp
  qed
  then obtain err' where "readTranslations e ms = Inl err'"
    by (cases "readTranslations e ms") simp_all
  with ms have "compileI18n e = ([], Inl err')"
    by (simp add: compileI18n_def loadTranslations_def)
  then show "fst (compileI18n e) = []" and "isl (snd (compileI18n e))" by simp_all
qed

theorem readTranslation_missing_file_witness:
  "readFileAsync example_env
       (join example_env [''node_modules/lib'', ''i18n'', [], ''en'' @ ''.properties''])
     = Inl (JsError (Some ''ENOENT'') ''no such file'')
   \<and> readTranslation example_env ''node_modules/lib'' ''i18n'' ''en'' []
     = Inr \<lparr>tlocale = ''en'', data = []\<rparr>
   \<and> readFileAsync unreadable_env
       (join unreadable_env [''/app'', ''src'', [], ''de'' @ ''.properties''])
     = Inl (JsError (Some ''EACCES'') ''permission denied'')
   \<and> (''/app'', ''src'', ''de'', []) \<in> set (readRequests
         [\<lparr>cwd = ''node_modules/lib'', tdir = ''i18n'', tfeatures = [[]],
           localesAndLanguages = [''en_GB'', ''en'']\<rparr>,
          \<lparr>cwd = ''/app'', tdir = ''src'', tfeatures = [[]],
           localesAndLanguages = [''en_GB'', ''en'', ''de'']\<rparr>])
   \<and> readTranslation unreadable_env ''/app'' ''src'' ''de'' []
     = Inl (JsError (Some ''EACCES'') ''permission denied'')
   \<and> fst (compileI18n unreadable_env) = []
   \<and> isl (snd (compileI18n unreadable_env))"
proof -
  have a: "readFileAsync example_env
       (join example_env [''node_modules/lib'', ''i18n'', [], ''en'' @ ''.properties''])
     = Inl (JsError (Some ''ENOENT'') ''no such file'')"
    by code_simp
  have b: "readFileAsync unreadable_env
       (join unreadable_env [''/app'', ''src'', [], ''de'' @ ''.properties''])
     = Inl (JsError (Some ''EACCES'') ''permission denied'')"
    by code_simp
  have ms: "translatedModules unreadable_env
       = Inr [\<lparr>cwd = ''node_modules/lib'', tdir = ''i18n'', tfeatures = [[]],
               localesAndLanguages = [''en_GB'', ''en'']\<rparr>,
              \<lparr>cwd = ''/app'', tdir = ''src'', tfeatures = [[]],
               localesAndLanguages = [''en_GB'', ''en'', ''de'']\<rparr>]"
    by code_simp
  have req: "(''/app'', ''src'', ''de'', []) \<in> set (readRequests
         [\<lparr>cwd = ''node_modules/lib'', tdir = ''i18n'', tfeatures = [[]],
           localesAndLanguages = [''en_GB'', ''en'']\<rparr>,
          \<lparr>cwd = ''/app'', tdir = ''src'', tfeatures = [[]],
           localesAndLanguages = [''en_GB'', ''en'', ''de'']\<rparr>])"
    by code_simp
  from readTranslation_missing_file
         [of example_env "''node_modules/lib''" "''i18n''" "[]" "''en''"
             "JsError (Some ''ENOENT'') ''no such file''"]
       readTranslation_missing_file
         [of unreadable_env "''/app''" "''src''" "[]" "''de''"
             "JsError (Some ''EACCES'') ''permission denied''"]
       a b ms req
  show ?thesis by simp
qed


subsection \<open>The order of the file-system operations\<close>

lemma perform_output_events: "list_all is_output (fst (perform_output e path text))"
  by (simp add: perform_output_def is_output_def)

lemma writeTranslation_events: "list_all is_output (fst (writeTranslation e d t))"
  by (simp add: writeTranslation_def perform_output_events split: sum.splits)

lemma writeTranslations_events: "list_all is_output (fst (writeTranslations e ps))"
proof (cases ps)
  case Nil
  then show ?thesis by (simp add: writeTranslations_def)
next
  case (Cons d qs)
  have "list_all is_output (concat (map (\<lambda>p. fst (writeTranslation e d p)) xs))" for xs
    by (induction xs) (simp_all add: writeTranslation_events)
  from this[of ps] Cons show ?thesis by (simp add: writeTranslations_def)
qed

lemma writeTranslationUnit_events: "list_all is_output (fst (writeTranslationUnit e t))"
  by (simp add: writeTranslationUnit_def perform_output_events split: option.splits sum.splits)

lemma writeDeclaration_events: "list_all is_output (fst (writeDeclaration e ps))"
  by (simp add: writeDeclaration_def perform_output_events split: option.splits)

lemma emit_events:
  "\<exists>ws. fst (emit e ps) = Remove (distDir (i18n (project e))) # ws
        \<and> list_all is_output ws
        \<and> (removeAsync e (distDir (i18n (project e))) \<noteq> None \<longrightarrow> ws = [])"
proof (cases "removeAsync e (distDir (i18n (project e)))")
  case (Some err)
  then show ?thesis by (simp add: emit_def perform_remove_def)
next
  case None
  obtain ev1 r1 where w1: "writeTranslations e ps = (ev1, r1)" by (cases "writeTranslations e ps")
  obtain ev2 r2 where w2: "writeTranslationUnit e (js_nth ps 0) = (ev2, r2)"
    by (cases "writeTranslationUnit e (js_nth ps 0)")
  obtain ev3 r3 where w3: "writeDeclaration e ps = (ev3, r3)" by (cases "writeDeclaration e ps")
  have o1: "list_all is_output ev1" using writeTranslations_events[of e ps] w1 by simp
  have o2: "list_all is_output ev2" using writeTranslationUnit_events[of e "js_nth ps 0"] w2 by simp
  have o3: "list_all is_output ev3" using writeDeclaration_events[of e ps] w3 by simp
  show ?thesis
    using None w1 w2 w3 o1 o2 o3
    by (cases r1; cases r2) (simp_all add: emit_def perform_remove_def)
qed

text \<open>
  Claim C5. A compile run either fails while loading, having issued no file-system
  operation, or its first operation is the removal of the configured output directory and
  every later operation is a write. When the removal fails no write is issued at all. The
  removal is awaited before the first writer is called, so the order of the operations is
  the order in which they are issued.
\<close>

theorem remove_before_writes:
  "(case loadTranslations e of
      Inl err \<Rightarrow> compileI18n e = ([], Inl err)
    | Inr ps \<Rightarrow>
        (\<exists>ws. fst (compileI18n e) = Remove (distDir (i18n (project e))) # ws
             \<and> list_all is_output ws
             \<and> (removeAsync e (distDir (i18n (project e))) \<noteq> None \<longrightarrow> ws = [])))"
  using emit_events by (simp add: compileI18n_def split: sum.splits)

lemma load_locked: "loadTranslations locked_env = Inr [example_en, example_de]"
  by code_simp

theorem remove_before_writes_witness:
  "(\<exists>ws. fst (compileI18n example_env) = Remove ''dist-i18n'' # ws
        \<and> list_all is_output ws \<and> length ws = 4)
   \<and> removeAsync locked_env (distDir (i18n (project locked_env))) \<noteq> None
   \<and> fst (compileI18n locked_env) = [Remove ''dist-i18n'']"
proof -
  have d: "distDir (i18n (project example_env)) = ''dist-i18n''"
    by code_simp
  have d': "distDir (i18n (project locked_env)) = ''dist-i18n''"
    by code_simp
  have n: "length (fst (compileI18n example_env)) = 5"
    by code_simp
  have r: "removeAsync locked_env (distDir (i18n (project locked_env))) \<noteq> None"
    by code_simp
  from remove_before_writes[of example_env]
  obtain ws where ws: "fst (compileI18n example_env) = Remove ''dist-i18n'' # ws"
    and o: "list_all is_output ws"
    unfolding load_example d by auto
  from ws n have l: "length ws = 4" by simp
  from remove_before_writes[of locked_env] r
  have "fst (compileI18n locked_env) = [Remove ''dist-i18n'']"
    unfolding load_locked d' by auto
  with ws o l r show ?thesis by blast
qed


subsection \<open>The generated modules\<close>

lemma translation_entry_undefined:
  \<open>js_read (asts t) key = Undefined \<Longrightarrow>
   translation_entry e t key
     = ''\<newline>myModule.'' @ key @ '' = function() {return 'Missing key "'' @ key
       @ ''".';\<newline>};\<newline>''\<close>
  by (simp add: translation_entry_def hasArguments_def js_truthy_def)

text \<open>
  The per-locale module written for a translation consists of the prelude, one entry for
  each key of the default translation, and the export line. Where
  \<^verbatim>\<open>translation.asts[key]\<close> evaluates to \<^verbatim>\<open>undefined\<close> the entry is the function
  without parameters whose whole body returns the literal \<^verbatim>\<open>Missing key "<key>".\<close>.
\<close>

lemma undefined_ast_formatter:
  assumes "toIntlLocale e (tlocale t) = Inr il"
  shows \<open>fst (writeTranslation e d t)
           = [Output (join e [distDir (i18n (project e)), tlocale t @ ''.js''])
                (translation_prelude il t
                 @ js_join []
                     (map (\<lambda>key. if js_read (asts t) key = Undefined
                                  then ''\<newline>myModule.'' @ key
                                       @ '' = function() {return 'Missing key "'' @ key
                                       @ ''".';\<newline>};\<newline>''
                                  else translation_entry e t key)
                          (js_keys (data d)))
                 @ ''\<newline>\<newline>module.exports['mercateo/i18n'] = myModule;\<newline>'')]\<close>
proof -
  have \<open>map (translation_entry e t) ks
          = map (\<lambda>key. if js_read (asts t) key = Undefined
                        then ''\<newline>myModule.'' @ key
                             @ '' = function() {return 'Missing key "'' @ key
                             @ ''".';\<newline>};\<newline>''
                        else translation_entry e t key) ks\<close> for ks
    by (rule map_cong) (simp_all add: translation_entry_undefined)
  note m = this
  show ?thesis
    unfolding writeTranslation_def Let_def assms perform_output_def translation_module_def m
    by simp
qed

text \<open>
  Claim C2, at an input where the code departs from it. The default translation has the
  key \<^verbatim>\<open>constructor\<close>; the translation of \<^verbatim>\<open>de\<close> has no parsed tree for it. The
  writer iterates the key, and the entry it writes for \<^verbatim>\<open>de\<close> is the caching formatter
  around the text of the inherited member, not the function that returns the missing-key
  text: the test \<^verbatim>\<open>translation.asts[key]\<close> finds the member of the object prototype.
\<close>

theorem absent_ast_inherited_formatter:
  \<open>map_of (asts \<lparr>tlocale = ''de'', data = [], asts = []\<rparr>) ''constructor'' = None
   \<and> js_keys (data \<lparr>tlocale = ''en'', data = [(''constructor'', ''Builder'')],
                     asts = [(''constructor'', Ast [Element ''messageTextElement'' [] None])]\<rparr>)
       = [''constructor'']
   \<and> translation_entry inherited_env \<lparr>tlocale = ''de'', data = [], asts = []\<rparr> ''constructor''
       = ''\<newline>myModule.constructor = function() {\<newline>''
         @ ''  if (!cachedMessages.constructor) {\<newline>''
         @ ''    const ast = function Object() { [native code] };\<newline>''
         @ ''    cachedMessages.constructor = new IntlMessageFormat(ast, myModule.INTL_LOCALE);\<newline>''
         @ ''  }\<newline>''
         @ ''\<newline>''
         @ ''  return cachedMessages.constructor.format();\<newline>''
         @ ''};\<newline>''
   \<and> translation_entry inherited_env \<lparr>tlocale = ''de'', data = [], asts = []\<rparr> ''constructor''
       \<noteq> ''\<newline>myModule.constructor = function() {return 'Missing key "constructor".';\<newline>''
         @ ''};\<newline>''\<close>
  by code_simp

text \<open>
  Claim C10. For a locale tag without an underscore the per-locale module and the unit
  module set the language code to the whole tag and the country code to the text
  \<^verbatim>\<open>undefined\<close>.
\<close>

theorem bare_language_country_undefined:
  assumes "CHR ''_'' \<notin> set (tlocale t)"
      and "toIntlLocale e (tlocale t) = Inr il"
  shows \<open>fst (writeTranslation e d t)
           = [Output (join e [distDir (i18n (project e)), tlocale t @ ''.js''])
                (module_imports il
                 @ ''\<newline>var myModule = {};''
                 @ ''\<newline>myModule.LOCALE = '' @ sq @ tlocale t @ sq @ '';''
                 @ ''\<newline>myModule.INTL_LOCALE = '' @ sq @ il @ sq @ '';''
                 @ ''\<newline>myModule.LANGUAGE_CODE = '' @ sq @ tlocale t @ sq @ '';''
                 @ ''\<newline>myModule.COUNTRY_CODE = 'undefined';''
                 @ ''\<newline>\<newline>const cachedMessages = {};\<newline>''
                 @ js_join [] (map (translation_entry e t) (js_keys (data d)))
                 @ ''\<newline>\<newline>module.exports['mercateo/i18n'] = myModule;\<newline>'')]
         \<and> fst (writeTranslationUnit e (Some t))
           = [Output (join e [distDir (i18n (project e)), ''unit.js''])
                (module_imports il
                 @ ''\<newline>export const LOCALE = '' @ sq @ tlocale t @ sq @ '';''
                 @ ''\<newline>export const INTL_LOCALE = '' @ sq @ il @ sq @ '';''
                 @ ''\<newline>export const LANGUAGE_CODE = '' @ sq @ tlocale t @ sq @ '';''
                 @ ''\<newline>export const COUNTRY_CODE = 'undefined';''
                 @ ''\<newline>\<newline>const cachedMessages = {};\<newline>''
                 @ js_join [] (map (unit_entry e t) (js_keys (data t)))
                 @ ''\<newline>'')]\<close>
proof -
  have s: "js_split CHR ''_'' (tlocale t) = [tlocale t]"
    using assms(1) by (rule js_split_no_separator)
  show ?thesis
    using assms(2)
    by (simp add: writeTranslation_def writeTranslationUnit_def perform_output_def
        translation_module_def unit_module_def translation_prelude_def unit_prelude_def
        s js_nth_def js_template_def Let_def)
qed

theorem bare_language_country_undefined_witness:
  \<open>CHR ''_'' \<notin> set (tlocale example_de)
   \<and> toIntlLocale example_env (tlocale example_de) = Inr ''de''
   \<and> fst (writeTranslation example_env example_en example_de)
       = [Output ''dist-i18n/de.js''
           (''// this file was generated by @mercateo/ws - do not modify it manually\<newline>''
        @ ''const IntlMessageFormat = require('intl-messageformat');\<newline>''
        @ ''// use intl polyfill for IE 10 and Safari 9\<newline>''
        @ ''require('intl');\<newline>''
        @ ''require('intl/locale-data/jsonp/de');\<newline>''
        @ ''\<newline>''
        @ ''var myModule = {};\<newline>''
        @ ''myModule.LOCALE = 'de';\<newline>''
        @ ''myModule.INTL_LOCALE = 'de';\<newline>''
        @ ''myModule.LANGUAGE_CODE = 'de';\<newline>''
        @ ''myModule.COUNTRY_CODE = 'undefined';\<newline>''
        @ ''\<newline>''
        @ ''const cachedMessages = {};\<newline>''
        @ ''\<newline>''
        @ ''myModule.greeting = function() {\<newline>''
        @ ''  if (!cachedMessages.greeting) {\<newline>''
        @ ''    const ast = { elements: 1 };\<newline>''
        @ ''    cachedMessages.greeting = new IntlMessageFormat(ast, myModule.INTL_LOCALE);\<newline>''
        @ ''  }\<newline>''
        @ ''\<newline>''
        @ ''  return cachedMessages.greeting.format();\<newline>''
        @ ''};\<newline>''
        @ ''\<newline>''
        @ ''myModule.itemCount = function() {return 'Missing key "itemCount".';\<newline>''
        @ ''};\<newline>''
        @ ''\<newline>''
        @ ''\<newline>''
        @ ''module.exports['mercateo/i18n'] = myModule;\<newline>'')]
   \<and> fst (writeTranslationUnit example_env (Some example_de))
       = [Output ''dist-i18n/unit.js''
           (''// this file was generated by @mercateo/ws - do not modify it manually\<newline>''
        @ ''const IntlMessageFormat = require('intl-messageformat');\<newline>''
        @ ''// use intl polyfill for IE 10 and Safari 9\<newline>''
        @ ''require('intl');\<newline>''
        @ ''require('intl/locale-data/jsonp/de');\<newline>''
        @ ''\<newline>''
        @ ''export const LOCALE = 'de';\<newline>''
        @ ''export const INTL_LOCALE = 'de';\<newline>''
        @ ''export const LANGUAGE_CODE = 'de';\<newline>''
        @ ''export const COUNTRY_CODE = 'undefined';\<newline>''
        @ ''\<newline>''
        @ ''const cachedMessages = {};\<newline>''
        @ ''\<newline>''
        @ ''export const greeting = () => {\<newline>''
        @ ''    if (!cachedMessages['greeting']) {\<newline>''
        @ ''    const ast = { elements: 1 };\<newline>''
        @ ''    cachedMessages['greeting'] = new IntlMessageFormat(ast, INTL_LOCALE);\<newline>''
        @ ''  }\<newline>''
        @ ''\<newline>''
        @ ''  return cachedMessages['greeting'].format();\<newline>''
        @ ''};\<newline>''
        @ ''\<newline>'')]\<close>
proof -
  have h: "CHR ''_'' \<notin> set (tlocale example_de)"
    by code_simp
  have i: "toIntlLocale example_env (tlocale example_de) = Inr ''de''"
    by code_simp
  have p: "join example_env [distDir (i18n (project example_env)), tlocale example_de @ ''.js'']
             = ''dist-i18n/de.js''"
    by code_simp
  have q: "join example_env [distDir (i18n (project example_env)), ''unit.js'']
             = ''dist-i18n/unit.js''"
    by code_simp
  have x: \<open>module_imports ''de''
            @ ''\<newline>var myModule = {};''
            @ ''\<newline>myModule.LOCALE = '' @ sq @ tlocale example_de @ sq @ '';''
            @ ''\<newline>myModule.INTL_LOCALE = '' @ sq @ ''de'' @ sq @ '';''
            @ ''\<newline>myModule.LANGUAGE_CODE = '' @ sq @ tlocale example_de @ sq @ '';''
            @ ''\<newline>myModule.COUNTRY_CODE = 'undefined';''
            @ ''\<newline>\<newline>const cachedMessages = {};\<newline>''
            @ js_join [] (map (translation_entry example_env example_de) (js_keys (data example_en)))
            @ ''\<newline>\<newline>module.exports['mercateo/i18n'] = myModule;\<newline>''
          = ''// this file was generated by @mercateo/ws - do not modify it manually\<newline>''
        @ ''const IntlMessageFormat = require('intl-messageformat');\<newline>''
        @ ''// use intl polyfill for IE 10 and Safari 9\<newline>''
        @ ''require('intl');\<newline>''
        @ ''require('intl/locale-data/jsonp/de');\<newline>''
        @ ''\<newline>''
        @ ''var myModule = {};\<newline>''
        @ ''myModule.LOCALE = 'de';\<newline>''
        @ ''myModule.INTL_LOCALE = 'de';\<newline>''
        @ ''myModule.LANGUAGE_CODE = 'de';\<newline>''
        @ ''myModule.COUNTRY_CODE = 'undefined';\<newline>''
        @ ''\<newline>''
        @ ''const cachedMessages = {};\<newline>''
        @ ''\<newline>''
        @ ''myModule.greeting = function() {\<newline>''
        @ ''  if (!cachedMessages.greeting) {\<newline>''
        @ ''    const ast = { elements: 1 };\<newline>''
        @ ''    cachedMessages.greeting = new IntlMessageFormat(ast, myModule.INTL_LOCALE);\<newline>''
        @ ''  }\<newline>''
        @ ''\<newline>''
        @ ''  return cachedMessages.greeting.format();\<newline>''
        @ ''};\<newline>''
        @ ''\<newline>''
        @ ''myModule.itemCount = function() {return 'Missing key "itemCount".';\<newline>''
        @ ''};\<newline>''
        @ ''\<newline>''
        @ ''\<newline>''
        @ ''module.exports['mercateo/i18n'] = myModule;\<newline>''\<close>
    by code_simp
  have y: \<open>module_imports ''de''
            @ ''\<newline>export const LOCALE = '' @ sq @ tlocale example_de @ sq @ '';''
            @ ''\<newline>export const INTL_LOCALE = '' @ sq @ ''de'' @ sq @ '';''
            @ ''\<newline>export const LANGUAGE_CODE = '' @ sq @ tlocale example_de @ sq @ '';''
            @ ''\<newline>export const COUNTRY_CODE = 'undefined';''
            @ ''\<newline>\<newline>const cachedMessages = {};\<newline>''
            @ js_join [] (map (unit_entry example_env example_de) (js_keys (data example_de)))
            @ ''\<newline>''
          = ''// this file was generated by @mercateo/ws - do not modify it manually\<newline>''
        @ ''const IntlMessageFormat = require('intl-messageformat');\<newline>''
        @ ''// use intl polyfill for IE 10 and Safari 9\<newline>''
        @ ''require('intl');\<newline>''
        @ ''require('intl/locale-data/jsonp/de');\<newline>''
        @ ''\<newline>''
        @ ''export const LOCALE = 'de';\<newline>''
        @ ''export const INTL_LOCALE = 'de';\<newline>''
        @ ''export const LANGUAGE_CODE = 'de';\<newline>''
        @ ''export const COUNTRY_CODE = 'undefined';\<newline>''
        @ ''\<newline>''
        @ ''const cachedMessages = {};\<newline>''
        @ ''\<newline>''
        @ ''export const greeting = () => {\<newline>''
        @ ''    if (!cachedMessages['greeting']) {\<newline>''
        @ ''    const ast = { elements: 1 };\<newline>''
        @ ''    cachedMessages['greeting'] = new IntlMessageFormat(ast, INTL_LOCALE);\<newline>''
        @ ''  }\<newline>''
        @ ''\<newline>''
        @ ''  return cachedMessages['greeting'].format();\<newline>''
        @ ''};\<newline>''
        @ ''\<newline>''\<close>
    by code_simp
  from bare_language_country_undefined[OF h i, of example_en] h i
  show ?thesis unfolding p q x y by simp
qed


subsection \<open>The declaration file\<close>

lemma declaration_lists_key:
  assumes "key \<in> set (js_keys (data d))"
  shows \<open>\<exists>pre post. declaration_module e ps d
            = pre @ ''\<newline>  export function '' @ key @ ''('' @ post\<close>
proof -
  have "declaration_entry e ps d key
          \<in> set (map (declaration_entry e ps d) (js_keys (data d)))"
    using assms by simp
  from js_join_member[OF this, of \<open>''\<newline>''\<close>]
  obtain a b where j: \<open>js_join ''\<newline>'' (map (declaration_entry e ps d) (js_keys (data d)))
                        = a @ declaration_entry e ps d key @ b\<close>
    by auto
  obtain h where h: \<open>declaration_module e ps d
        = h @ js_join ''\<newline>'' (map (declaration_entry e ps d) (js_keys (data d)))
            @ ''\<newline>}\<newline>''\<close>
    unfolding declaration_module_def by (metis append.assoc)
  obtain doc rest where en: \<open>declaration_entry e ps d key
        = doc @ ''\<newline>  export function '' @ key @ ''('' @ rest\<close>
    unfolding declaration_entry_def by (metis append.assoc)
  have \<open>declaration_module e ps d
          = (h @ a @ doc) @ ''\<newline>  export function '' @ key @ ''(''
            @ (rest @ b @ ''\<newline>}\<newline>'')\<close>
    unfolding h j en by simp
  then show ?thesis by blast
qed

text \<open>
  Claim C6. In a run that reaches the end of \<^verbatim>\<open>compileI18n\<close> (the translations
  load, the output directory is removed, the per-locale modules and the unit module are
  written) the operations are the removal, the writes of the modules and, exactly when the
  entry extension is not \<^verbatim>\<open>js\<close>, one more write: the declaration module at
  \<^verbatim>\<open>index.d.ts\<close>, which declares a function for every key of the default translation.
\<close>

theorem declaration_iff_not_js:
  assumes "loadTranslations e = Inr ps"
      and "removeAsync e (distDir (i18n (project e))) = None"
      and "snd (writeTranslations e ps) = Inr us"
      and "snd (writeTranslationUnit e (js_nth ps 0)) = Inr u"
  shows \<open>ps \<noteq> []
         \<and> fst (compileI18n e)
             = Remove (distDir (i18n (project e)))
               # fst (writeTranslations e ps)
               @ fst (writeTranslationUnit e (Some (hd ps)))
               @ (if entryExtension (project e) \<noteq> ''js''
                  then [Output (join e [distDir (i18n (project e)), ''index.d.ts''])
                          (declaration_module e ps (hd ps))]
                  else [])
         \<and> (\<forall>key\<in>set (js_keys (data (hd ps))).
               \<exists>pre post. declaration_module e ps (hd ps)
                  = pre @ ''\<newline>  export function '' @ key @ ''('' @ post)\<close>
proof -
  have ne: "ps \<noteq> []"
    using assms(4) by (auto simp: writeTranslationUnit_def js_nth_def)
  then have n0: "js_nth ps 0 = Some (hd ps)"
    by (cases ps) (simp_all add: js_nth_def)
  obtain ev1 where w1: "writeTranslations e ps = (ev1, Inr us)"
    using assms(3) by (cases "writeTranslations e ps") simp
  obtain ev2 where w2: "writeTranslationUnit e (Some (hd ps)) = (ev2, Inr u)"
    using assms(4) n0 by (cases "writeTranslationUnit e (Some (hd ps))") simp
  have ev: \<open>fst (compileI18n e)
             = Remove (distDir (i18n (project e)))
               # fst (writeTranslations e ps)
               @ fst (writeTranslationUnit e (Some (hd ps)))
               @ (if entryExtension (project e) \<noteq> ''js''
                  then [Output (join e [distDir (i18n (project e)), ''index.d.ts''])
                          (declaration_module e ps (hd ps))]
                  else [])\<close>
    using assms(1,2) n0 w1 w2
    by (simp add: compileI18n_def emit_def perform_remove_def writeDeclaration_def
        perform_output_def Let_def)
  from ne ev declaration_lists_key show ?thesis by blast
qed

lemma writes_example:
  "snd (writeTranslations example_env [example_en, example_de]) = Inr [(), ()]"
  by code_simp

lemma unit_example:
  "snd (writeTranslationUnit example_env (js_nth [example_en, example_de] 0)) = Inr ()"
  by code_simp

theorem declaration_iff_not_js_witness:
  \<open>loadTranslations example_env = Inr [example_en, example_de]
   \<and> removeAsync example_env (distDir (i18n (project example_env))) = None
   \<and> snd (writeTranslations example_env [example_en, example_de]) = Inr [(), ()]
   \<and> snd (writeTranslationUnit example_env (js_nth [example_en, example_de] 0)) = Inr ()
   \<and> entryExtension (project example_env) \<noteq> ''js''
   \<and> ''itemCount'' \<in> set (js_keys (data example_en))
   \<and> last (fst (compileI18n example_env))
       = Output ''dist-i18n/index.d.ts''
           (declaration_module example_env [example_en, example_de] example_en)
   \<and> (\<exists>pre post. declaration_module example_env [example_en, example_de] example_en
          = pre @ ''\<newline>  export function itemCount('' @ post)\<close>
proof -
  have r: "removeAsync example_env (distDir (i18n (project example_env))) = None"
    by code_simp
  have x: "entryExtension (project example_env) \<noteq> ''js''"
    by code_simp
  have k: "''itemCount'' \<in> set (js_keys (data example_en))"
    by code_simp
  have p: "join example_env [distDir (i18n (project example_env)), ''index.d.ts'']
             = ''dist-i18n/index.d.ts''"
    by code_simp
  note t = declaration_iff_not_js[OF load_example r writes_example unit_example]
  from t x have l: "last (fst (compileI18n example_env))
       = Output ''dist-i18n/index.d.ts''
           (declaration_module example_env [example_en, example_de] example_en)"
    unfolding p by simp
  note d = t[THEN conjunct2, THEN conjunct2, unfolded list.sel, rule_format, OF k]
  from d have d': \<open>\<exists>pre post. declaration_module example_env [example_en, example_de] example_en
          = pre @ ''\<newline>  export function itemCount('' @ post\<close>
    by simp
  from load_example r writes_example unit_example x k l d' show ?thesis by blast
qed

subsection \<open>Keys that name a member of the object prototype\<close>

text \<open>
  Claim C8, at an input where the code departs from it. The default locale \<^verbatim>\<open>en\<close>
  has the key \<^verbatim>\<open>constructor\<close>; the locale \<^verbatim>\<open>de\<close> has no key at all. Reading
  \<^verbatim>\<open>constructor\<close> from the empty tree table of \<^verbatim>\<open>de\<close> finds the member
  inherited from the object prototype, which is truthy, so the module written for
  \<^verbatim>\<open>de\<close> has for this key the caching formatter around the text of that member, not
  the formatter that returns the missing-key text.
\<close>

theorem inherited_key_formatter:
  \<open>loadTranslations inherited_env
     = Inr [\<lparr>tlocale = ''en'', data = [(''constructor'', ''Builder'')],
             asts = [(''constructor'', Ast [Element ''messageTextElement'' [] None])]\<rparr>,
            \<lparr>tlocale = ''de'', data = [], asts = []\<rparr>]
   \<and> js_read ([] :: ast js_object) ''constructor'' = Inherited
   \<and> fst (compileI18n inherited_env) ! 2
     = Output ''dist-i18n/de.js''
        (''// this file was generated by @mercateo/ws - do not modify it manually\<newline>''
        @ ''const IntlMessageFormat = require('intl-messageformat');\<newline>''
        @ ''// use intl polyfill for IE 10 and Safari 9\<newline>''
        @ ''require('intl');\<newline>''
        @ ''require('intl/locale-data/jsonp/de');\<newline>''
        @ ''\<newline>''
        @ ''var myModule = {};\<newline>''
        @ ''myModule.LOCALE = 'de';\<newline>''
        @ ''myModule.INTL_LOCALE = 'de';\<newline>''
        @ ''myModule.LANGUAGE_CODE = 'de';\<newline>''
        @ ''myModule.COUNTRY_CODE = 'undefined';\<newline>''
        @ ''\<newline>''
        @ ''const cachedMessages = {};\<newline>''
        @ ''\<newline>''
        @ ''myModule.constructor = function() {\<newline>''
        @ ''  if (!cachedMessages.constructor) {\<newline>''
        @ ''    const ast = function Object() { [native code] };\<newline>''
        @ ''    cachedMessages.constructor = new IntlMessageFormat(ast, myModule.INTL_LOCALE);\<newline>''
        @ ''  }\<newline>''
        @ ''\<newline>''
        @ ''  return cachedMessages.constructor.format();\<newline>''
        @ ''};\<newline>''
        @ ''\<newline>''
        @ ''\<newline>''
        @ ''module.exports['mercateo/i18n'] = myModule;\<newline>'')\<close>
  by code_simp


end
